theory Spec2Isabelle
  imports Complex_Main
begin

section \<open>JavaScript values used by the number field\<close>

text \<open>
  The number field of \<^verbatim>\<open>src/Field/Number.js\<close> stores numbers, booleans and
  \<^verbatim>\<open>null\<close>, and reads options that may be absent (\<^verbatim>\<open>undefined\<close>).
  A JavaScript number is a finite value, \<^verbatim>\<open>NaN\<close> or one of the two infinities.
  A finite number is modelled as the rational it denotes; the sign of zero is outside
  this model. Comparison, negation, \<^verbatim>\<open>Math.ceil\<close> and the integer part are exact on
  doubles and are computed on the rationals. Addition rounds: it is defined further
  down, exact where the double sum is exact and a parameter elsewhere. Strings and
  objects are not values of the model: none of the documented parameter types of the
  class is one.
\<close>

datatype jsnum = Fin rat | NaN | PInf | NInf

datatype jsval = JUndefined | JNull | JBool bool | JNum jsnum

text \<open>ToBoolean: \<^verbatim>\<open>undefined\<close>, \<^verbatim>\<open>null\<close>, \<^verbatim>\<open>false\<close>, \<^verbatim>\<open>0\<close> and \<^verbatim>\<open>NaN\<close> are falsy.\<close>

fun truthy :: "jsval \<Rightarrow> bool" where
  "truthy JUndefined = False"
| "truthy JNull = False"
| "truthy (JBool b) = b"
| "truthy (JNum (Fin r)) = (r \<noteq> 0)"
| "truthy (JNum NaN) = False"
| "truthy (JNum PInf) = True"
| "truthy (JNum NInf) = True"

text \<open>The operators \<^verbatim>\<open>a || b\<close> and \<^verbatim>\<open>a && b\<close> return one of their operands.\<close>

definition js_or :: "jsval \<Rightarrow> jsval \<Rightarrow> jsval" where
  "js_or a b = (if truthy a then a else b)"

definition js_and :: "jsval \<Rightarrow> jsval \<Rightarrow> jsval" where
  "js_and a b = (if truthy a then b else a)"

text \<open>ToNumber.\<close>

fun to_number :: "jsval \<Rightarrow> jsnum" where
  "to_number JUndefined = NaN"
| "to_number JNull = Fin 0"
| "to_number (JBool b) = Fin (if b then 1 else 0)"
| "to_number (JNum n) = n"

text \<open>Negation of numbers.\<close>

fun num_neg :: "jsnum \<Rightarrow> jsnum" where
  "num_neg (Fin a) = Fin (- a)"
| "num_neg NaN = NaN"
| "num_neg PInf = NInf"
| "num_neg NInf = PInf"

text \<open>The unary \<^verbatim>\<open>-a\<close> converts its operand to a number.\<close>

definition js_neg :: "jsval \<Rightarrow> jsval" where
  "js_neg a = JNum (num_neg (to_number a))"

text \<open>The order of numbers: every comparison with \<^verbatim>\<open>NaN\<close> is false.\<close>

fun num_lt :: "jsnum \<Rightarrow> jsnum \<Rightarrow> bool" where
  "num_lt NaN y = False"
| "num_lt x NaN = False"
| "num_lt (Fin a) (Fin b) = (a < b)"
| "num_lt (Fin a) PInf = True"
| "num_lt (Fin a) NInf = False"
| "num_lt PInf y = False"
| "num_lt NInf NInf = False"
| "num_lt NInf y = True"

fun num_is_nan :: "jsnum \<Rightarrow> bool" where
  "num_is_nan NaN = True"
| "num_is_nan x = False"

fun num_is_finite :: "jsnum \<Rightarrow> bool" where
  "num_is_finite (Fin a) = True"
| "num_is_finite x = False"

text \<open>\<^verbatim>\<open>a < b\<close>, \<^verbatim>\<open>a > b\<close> and \<^verbatim>\<open>a >= b\<close> on values convert both operands to numbers.\<close>

definition js_lt :: "jsval \<Rightarrow> jsval \<Rightarrow> bool" where
  "js_lt a b = num_lt (to_number a) (to_number b)"

definition js_gt :: "jsval \<Rightarrow> jsval \<Rightarrow> bool" where
  "js_gt a b = num_lt (to_number b) (to_number a)"

definition js_ge :: "jsval \<Rightarrow> jsval \<Rightarrow> bool" where
  "js_ge a b =
     (if num_is_nan (to_number a) then False
      else if num_is_nan (to_number b) then False
      else (if num_lt (to_number a) (to_number b) then False else True))"

text \<open>Strict equality \<^verbatim>\<open>a === b\<close>: no conversion, and \<^verbatim>\<open>NaN\<close> equals nothing.\<close>

fun js_strict_eq :: "jsval \<Rightarrow> jsval \<Rightarrow> bool" where
  "js_strict_eq JUndefined JUndefined = True"
| "js_strict_eq JNull JNull = True"
| "js_strict_eq (JBool a) (JBool b) = (a = b)"
| "js_strict_eq (JNum NaN) (JNum y) = False"
| "js_strict_eq (JNum x) (JNum NaN) = False"
| "js_strict_eq (JNum x) (JNum y) = (x = y)"
| "js_strict_eq a b = False"

definition js_strict_neq :: "jsval \<Rightarrow> jsval \<Rightarrow> bool" where
  "js_strict_neq a b = (if js_strict_eq a b then False else True)"

text \<open>The global functions \<^verbatim>\<open>isNaN\<close> and \<^verbatim>\<open>isFinite\<close> convert their argument.\<close>

definition js_isNaN :: "jsval \<Rightarrow> bool" where
  "js_isNaN v = num_is_nan (to_number v)"

definition js_isFinite :: "jsval \<Rightarrow> bool" where
  "js_isFinite v = num_is_finite (to_number v)"

text \<open>\<^verbatim>\<open>Math.ceil\<close>.\<close>

fun num_ceil :: "jsnum \<Rightarrow> jsnum" where
  "num_ceil (Fin a) = Fin (of_int \<lceil>a\<rceil>)"
| "num_ceil x = x"

definition js_ceil :: "jsval \<Rightarrow> jsval" where
  "js_ceil v = JNum (num_ceil (to_number v))"

section \<open>The field and its collaborators\<close>

text \<open>
  \<^verbatim>\<open>class NumberField extends Field\<close>. The base class \<^verbatim>\<open>Field\<close>, the view and the
  random number generator are collaborators whose code is not part of the module; the
  record \<open>base_field\<close> holds what the number field reads from its base class
  (\<^verbatim>\<open>getValue()\<close>, \<^verbatim>\<open>isValid()\<close>, \<^verbatim>\<open>hasView()\<close>, \<^verbatim>\<open>getView()\<close>).
\<close>

record view =
  updates :: nat

record base_field =
  this_name :: string
  this_value :: jsval
  this_valid :: bool
  this_view :: "view option"

text \<open>
  The attributes assigned by the constructor of the number field. A function is stored
  by reference; \<open>None\<close> is \<^verbatim>\<open>null\<close>.
\<close>

record field = base_field +
  this_integer :: jsval
  this_step :: jsval
  this_min :: jsval
  this_max :: jsval
  this_rotate :: jsval
  this_describeValueCallback :: "nat option"

text \<open>
  The options bag \<^verbatim>\<open>spec.options\<close>: an absent option reads as \<^verbatim>\<open>undefined\<close>.
  The callback option is a function reference or \<open>None\<close>, for an absent one.
\<close>

record options =
  opt_integer :: jsval
  opt_step :: jsval
  opt_min :: jsval
  opt_max :: jsval
  opt_rotate :: jsval
  opt_describeValue :: "nat option"

definition no_options :: options where
  "no_options = \<lparr>opt_integer = JUndefined, opt_step = JUndefined, opt_min = JUndefined,
     opt_max = JUndefined, opt_rotate = JUndefined, opt_describeValue = None\<rparr>"

record spec =
  spec_options :: "options option"

text \<open>
  A validation result: \<^verbatim>\<open>true\<close>, \<^verbatim>\<open>false\<close>, or a message object
  \<^verbatim>\<open>{ key, message }\<close> whose text is a template with one interpolated value.
\<close>

datatype vresult = VTrue | VFalse | VMessage string string "jsval option"

text \<open>The injected random number generator.\<close>

record random =
  nextInteger :: "jsval \<Rightarrow> jsval \<Rightarrow> jsval"
  nextFloat :: "jsval \<Rightarrow> jsval \<Rightarrow> jsval"

text \<open>The value a method returns to its caller: the receiver or \<^verbatim>\<open>undefined\<close>.\<close>

datatype ret = RetThis | RetUndefined

text \<open>
  What the number field calls and does not define: the methods it inherits through
  \<^verbatim>\<open>super\<close>, the function behind a callback reference, and what \<^verbatim>\<open>parseInt\<close> reads
  from a number whose string form is in exponent notation (the digits of that string
  depend on the double, which is outside this model). \<open>float_add\<close> is the IEEE sum of
  two finite doubles, rounded to the nearest double or to an infinity; it is consulted
  only for the sums that are not known to be exact.
\<close>

record env =
  super_constructor :: "string \<Rightarrow> spec \<Rightarrow> base_field"
  super_validateValue :: "field \<Rightarrow> jsval \<Rightarrow> vresult"
  super_filterValue :: "field \<Rightarrow> jsval \<Rightarrow> jsval"
  super_randomizeValue :: "field \<Rightarrow> random \<Rightarrow> jsval"
  call_function :: "nat \<Rightarrow> jsval \<Rightarrow> field \<Rightarrow> string option"
  parseInt_exponent :: "rat \<Rightarrow> jsnum"
  float_add :: "rat \<Rightarrow> rat \<Rightarrow> jsnum"

text \<open>
  Addition of numbers. A multiple of \<open>1/1024\<close> of magnitude at most \<open>2 ^ 40\<close> is a
  double, and the sum of two of them is a multiple of \<open>1/1024\<close> of magnitude at most
  \<open>2 ^ 41\<close>, again a double: IEEE addition returns that sum as it is. Every other sum
  of finite numbers is the rounded sum \<open>float_add\<close>. \<^verbatim>\<open>Infinity + -Infinity\<close> is
  \<^verbatim>\<open>NaN\<close>.
\<close>

definition exact_operand :: "rat \<Rightarrow> bool" where
  "exact_operand x = (of_int \<lfloor>x * 1024\<rfloor> = x * 1024 \<and> \<bar>x\<bar> \<le> 2 ^ 40)"

fun num_add :: "env \<Rightarrow> jsnum \<Rightarrow> jsnum \<Rightarrow> jsnum" where
  "num_add E NaN y = NaN"
| "num_add E x NaN = NaN"
| "num_add E (Fin a) (Fin b) =
     (if exact_operand a \<and> exact_operand b then Fin (a + b) else float_add E a b)"
| "num_add E (Fin a) PInf = PInf"
| "num_add E (Fin a) NInf = NInf"
| "num_add E PInf NInf = NaN"
| "num_add E PInf y = PInf"
| "num_add E NInf PInf = NaN"
| "num_add E NInf y = NInf"

text \<open>
  \<^verbatim>\<open>a + b\<close> and \<^verbatim>\<open>a - b\<close>: with no string among the values, \<^verbatim>\<open>+\<close> is the addition
  of the operands converted to numbers, and \<^verbatim>\<open>a - b\<close> is the sum of \<open>a\<close> and \<open>-b\<close>.
\<close>

definition js_add :: "env \<Rightarrow> jsval \<Rightarrow> jsval \<Rightarrow> jsval" where
  "js_add E a b = JNum (num_add E (to_number a) (to_number b))"

definition js_sub :: "env \<Rightarrow> jsval \<Rightarrow> jsval \<Rightarrow> jsval" where
  "js_sub E a b = JNum (num_add E (to_number a) (num_neg (to_number b)))"

text \<open>
  \<^verbatim>\<open>parseInt\<close> and \<^verbatim>\<open>parseFloat\<close> convert their argument to a string and parse it.
  A finite number between \<^verbatim>\<open>1e-6\<close> and \<^verbatim>\<open>1e21\<close> in magnitude, or zero, prints in
  decimal notation, and \<^verbatim>\<open>parseInt\<close> reads its integer part. \<^verbatim>\<open>parseFloat\<close> reads a
  number back as it is. The strings \<^verbatim>\<open>"undefined"\<close>, \<^verbatim>\<open>"null"\<close>, \<^verbatim>\<open>"true"\<close>,
  \<^verbatim>\<open>"false"\<close> and \<^verbatim>\<open>"NaN"\<close> parse to \<^verbatim>\<open>NaN\<close>; \<^verbatim>\<open>"Infinity"\<close> does so
  for \<^verbatim>\<open>parseInt\<close> only.
\<close>

definition trunc :: "rat \<Rightarrow> rat" where
  "trunc r = of_int (if r < 0 then \<lceil>r\<rceil> else \<lfloor>r\<rfloor>)"

fun js_parseInt :: "env \<Rightarrow> jsval \<Rightarrow> jsval" where
  "js_parseInt E (JNum (Fin r)) =
     (if r = 0 \<or> (1 / 10 ^ 6 \<le> \<bar>r\<bar> \<and> \<bar>r\<bar> < 10 ^ 21) then JNum (Fin (trunc r))
      else JNum (parseInt_exponent E r))"
| "js_parseInt E v = JNum NaN"

fun js_parseFloat :: "jsval \<Rightarrow> jsval" where
  "js_parseFloat (JNum n) = JNum n"
| "js_parseFloat v = JNum NaN"

section \<open>The number field\<close>

text \<open>
  The constructor: \<^verbatim>\<open>super(name, spec)\<close>, \<^verbatim>\<open>const options = spec.options || {}\<close>,
  then one assignment per attribute, each with \<^verbatim>\<open>||\<close> for its default. The
  assignment of the view prototype belongs to the view layer and has no attribute here.
\<close>

definition constructor :: "env \<Rightarrow> string \<Rightarrow> spec \<Rightarrow> field" where
  "constructor E name spec =
     (let b = super_constructor E name spec;
          options = (case spec_options spec of None \<Rightarrow> no_options | Some ops \<Rightarrow> ops);
          integer = js_or (opt_integer options) (JBool False);
          step = js_or (opt_step options) (JNum (Fin 1));
          mn = js_or (opt_min options) JNull;
          mx = js_or (opt_max options) JNull;
          rot = js_and (js_and (js_or (opt_rotate options) (JBool True))
                     (JBool (js_strict_neq mn JNull))) (JBool (js_strict_neq mx JNull))
      in \<lparr>this_name = this_name b, this_value = this_value b, this_valid = this_valid b,
          this_view = this_view b,
          this_integer = integer, this_step = step, this_min = mn, this_max = mx,
          this_rotate = rot,
          this_describeValueCallback = opt_describeValue options\<rparr>)"

definition isInteger :: "field \<Rightarrow> jsval" where
  "isInteger f = this_integer f"

definition getStep :: "field \<Rightarrow> jsval" where
  "getStep f = this_step f"

definition getMin :: "field \<Rightarrow> jsval" where
  "getMin f = this_min f"

definition getMax :: "field \<Rightarrow> jsval" where
  "getMax f = this_max f"

definition isRotate :: "field \<Rightarrow> jsval" where
  "isRotate f = this_rotate f"

text \<open>
  Modelled from the spec: the base Field's accessors \<^verbatim>\<open>getValue()\<close>, \<^verbatim>\<open>isValid()\<close>
  and \<^verbatim>\<open>hasView()\<close>, which are not part of the module. They read what the base class
  holds: the current value, its validity and the attached view.
\<close>

definition getValue :: "field \<Rightarrow> jsval" where
  "getValue f = this_value f"

definition isValid :: "field \<Rightarrow> bool" where
  "isValid f = this_valid f"

definition hasView :: "field \<Rightarrow> bool" where
  "hasView f = (case this_view f of None \<Rightarrow> False | Some v \<Rightarrow> True)"

text \<open>\<^verbatim>\<open>filterValue\<close>: \<^verbatim>\<open>parseInt\<close> in integer mode, \<^verbatim>\<open>parseFloat\<close> otherwise, then the base class.\<close>

definition filterValue :: "env \<Rightarrow> field \<Rightarrow> jsval \<Rightarrow> jsval" where
  "filterValue E f rawValue =
     (let rawValue1 = (if truthy (isInteger f) then js_parseInt E rawValue
                       else js_parseFloat rawValue)
      in super_filterValue E f rawValue1)"

text \<open>\<^verbatim>\<open>validateValue\<close>: the three checks in the order of the source, then the base class.\<close>

definition validateValue :: "env \<Rightarrow> field \<Rightarrow> jsval \<Rightarrow> vresult" where
  "validateValue E f rawValue =
     (let v = filterValue E f rawValue in
      if (if js_isNaN v then True else if js_isFinite v then False else True)
      then VMessage ''numberNotNumeric'' ''The value is not numeric'' None
      else if js_strict_neq (this_min f) JNull \<and> js_lt v (this_min f)
      then VMessage ''numberTooSmall''
             ''The value must be greater than or equal to '' (Some (this_min f))
      else if js_strict_neq (this_max f) JNull \<and> js_ge v (this_max f)
      then VMessage ''numberTooLarge'' ''The value must be less than '' (Some (this_max f))
      else super_validateValue E f v)"

text \<open>The key of a failure, if the result is a message object.\<close>

fun key_of :: "vresult \<Rightarrow> string option" where
  "key_of (VMessage k m a) = Some k"
| "key_of r = None"

text \<open>
  Modelled from the spec: the base Field's \<^verbatim>\<open>revalidateValue()\<close>, which is not part of
  the module. It re-runs the validation of the currently held value and returns the
  receiver.
\<close>

definition revalidateValue :: "env \<Rightarrow> field \<Rightarrow> ret \<times> field" where
  "revalidateValue E f =
     (RetThis, f\<lparr>this_valid := (validateValue E f (this_value f) = VTrue)\<rparr>)"

text \<open>
  Modelled from the spec: the base Field's \<^verbatim>\<open>setValue(value)\<close>, which is not part of
  the module. It commits the value as the field's current value and returns the receiver.
\<close>

definition setValue :: "env \<Rightarrow> jsval \<Rightarrow> field \<Rightarrow> ret \<times> field" where
  "setValue E v f =
     (RetThis, f\<lparr>this_value := v, this_valid := (validateValue E f v = VTrue)\<rparr>)"

subsection \<open>Setters\<close>

definition setInteger :: "env \<Rightarrow> jsval \<Rightarrow> field \<Rightarrow> ret \<times> field" where
  "setInteger E integer f = revalidateValue E (f\<lparr>this_integer := integer\<rparr>)"

definition setStep :: "jsval \<Rightarrow> field \<Rightarrow> ret \<times> field" where
  "setStep step f = (RetThis, f\<lparr>this_step := step\<rparr>)"

definition setMin :: "env \<Rightarrow> jsval \<Rightarrow> field \<Rightarrow> ret \<times> field" where
  "setMin E mn f = revalidateValue E (f\<lparr>this_min := mn\<rparr>)"

definition setMax :: "env \<Rightarrow> jsval \<Rightarrow> field \<Rightarrow> ret \<times> field" where
  "setMax E mx f = revalidateValue E (f\<lparr>this_max := mx\<rparr>)"

definition setRotate :: "jsval \<Rightarrow> field \<Rightarrow> ret \<times> field" where
  "setRotate rot f =
     (RetThis,
      f\<lparr>this_rotate := js_and (js_and rot (JBool (js_strict_neq (this_min f) JNull)))
                          (JBool (js_strict_neq (this_max f) JNull))\<rparr>)"

subsection \<open>Stepping\<close>

text \<open>
  The loop of \<^verbatim>\<open>stepValue\<close>, in three parts. \<open>stepGuard\<close> is the pair of boundary
  tests that ends the loop condition. \<open>stepNext\<close> is the loop body up to the validation:
  add the step, then rotate. \<open>stepLoop\<close> is the loop: its state is the running
  \<^verbatim>\<open>value\<close>, the counter \<^verbatim>\<open>tries\<close> and the flag \<^verbatim>\<open>valueFound\<close>; the list
  \<open>tried\<close> records, in order, the candidates handed to \<^verbatim>\<open>validateValue\<close>, one per
  execution of the loop body. The condition is read left to right as in the source:
  \<^verbatim>\<open>tries++ < maxTries\<close> is evaluated only when no value has been found, and the
  boundary tests only after it.
\<close>

definition stepGuard :: "field \<Rightarrow> jsval \<Rightarrow> jsval \<Rightarrow> bool" where
  "stepGuard f step value =
     ((truthy (this_rotate f) \<or> js_gt step (JNum (Fin 0)) \<or> js_strict_neq value (this_min f))
      \<and> (truthy (this_rotate f) \<or> js_lt step (JNum (Fin 0))
           \<or> js_strict_neq value (this_max f)))"

definition stepNext :: "env \<Rightarrow> field \<Rightarrow> jsval \<Rightarrow> jsval \<Rightarrow> jsval" where
  "stepNext E f step value =
     (let value1 = js_add E value step in
      if truthy (this_rotate f) \<and> js_gt value1 (this_max f) \<and> truthy (this_rotate f)
      then this_min f
      else if truthy (this_rotate f) \<and> js_lt value1 (this_min f) \<and> truthy (this_rotate f)
      then js_add E (this_max f) step
      else value1)"

function stepLoop ::
  "env \<Rightarrow> field \<Rightarrow> jsval \<Rightarrow> nat \<Rightarrow> jsval \<Rightarrow> nat \<Rightarrow> bool \<Rightarrow> jsval list
     \<Rightarrow> jsval \<times> bool \<times> jsval list" where
  "stepLoop E f step maxTries value tries valueFound tried =
     (if \<not> valueFound \<and> tries < maxTries \<and> stepGuard f step value
      then stepLoop E f step maxTries (stepNext E f step value) (Suc tries)
             (validateValue E f (stepNext E f step value) = VTrue)
             (tried @ [stepNext E f step value])
      else (value, valueFound, tried))"
  by pat_completeness auto
termination
  by (relation "measure (\<lambda>(E, f, step, maxTries, value, tries, valueFound, tried).
        maxTries - tries)") auto

declare stepLoop.simps [simp del]

text \<open>
  \<^verbatim>\<open>stepValue (step, maxTries = 100)\<close>: \<open>maxTries\<close> is a number of tries, a natural
  number, and \<open>None\<close> is the omitted argument, which defaults to 100. \<open>stepRun\<close> is
  the loop started as the source starts it; \<open>stepValue\<close> is the value returned and
  \<open>stepAttempts\<close> the candidates validated on the way.
\<close>

definition maxTriesDefault :: "nat option \<Rightarrow> nat" where
  "maxTriesDefault maxTries = (case maxTries of None \<Rightarrow> 100 | Some n \<Rightarrow> n)"

definition stepRun :: "env \<Rightarrow> field \<Rightarrow> jsval \<Rightarrow> nat option \<Rightarrow> jsval \<times> bool \<times> jsval list" where
  "stepRun E f step maxTries =
     stepLoop E f step (maxTriesDefault maxTries) (getValue f) 0 False []"

definition stepValue :: "env \<Rightarrow> field \<Rightarrow> jsval \<Rightarrow> nat option \<Rightarrow> jsval" where
  "stepValue E f step maxTries =
     (case stepRun E f step maxTries of
        (value, valueFound, tried) \<Rightarrow> if valueFound then value else JNull)"

definition stepAttempts :: "env \<Rightarrow> field \<Rightarrow> jsval \<Rightarrow> nat option \<Rightarrow> jsval list" where
  "stepAttempts E f step maxTries =
     (case stepRun E f step maxTries of (value, valueFound, tried) \<Rightarrow> tried)"

definition stepUp :: "env \<Rightarrow> field \<Rightarrow> ret \<times> field" where
  "stepUp E f =
     (let value = stepValue E f (this_step f) None
      in if js_strict_neq value JNull then setValue E value f else (RetThis, f))"

definition stepDown :: "env \<Rightarrow> field \<Rightarrow> ret \<times> field" where
  "stepDown E f =
     (let value = stepValue E f (js_neg (this_step f)) None
      in if js_strict_neq value JNull then setValue E value f else (RetThis, f))"

subsection \<open>Value description, randomization\<close>

definition getValueDescription :: "env \<Rightarrow> field \<Rightarrow> string option" where
  "getValueDescription E f =
     (if (if isValid f then False else True) then None
      else (case this_describeValueCallback f of
              None \<Rightarrow> None
            | Some cb \<Rightarrow> call_function E cb (getValue f) f))"

text \<open>
  \<^verbatim>\<open>setNeedsValueDescriptionUpdate\<close>: the body is the single expression statement
  \<^verbatim>\<open>this.hasView() && this.getView().updateValue()\<close>; the method has no
  \<^verbatim>\<open>return\<close>.
\<close>

definition setNeedsValueDescriptionUpdate :: "field \<Rightarrow> ret \<times> field" where
  "setNeedsValueDescriptionUpdate f =
     (RetUndefined,
      (case this_view f of
         None \<Rightarrow> f
       | Some v \<Rightarrow> f\<lparr>this_view := Some (v\<lparr>updates := Suc (updates v)\<rparr>)\<rparr>))"

definition randomizeValue :: "env \<Rightarrow> field \<Rightarrow> random \<Rightarrow> jsval" where
  "randomizeValue E f rnd =
     (let value = super_randomizeValue E f rnd in
      if js_strict_neq value JNull then value
      else if js_strict_neq (getMin f) JNull \<and> js_strict_neq (getMax f) JNull
      then (if truthy (isInteger f)
            then nextInteger rnd (getMin f) (js_sub E (js_ceil (getMax f)) (JNum (Fin 1)))
            else nextFloat rnd (getMin f) (getMax f))
      else JNull)"

definition viewValueDidChange :: "env \<Rightarrow> jsval \<Rightarrow> field \<Rightarrow> field" where
  "viewValueDidChange E v f = snd (setValue E v f)"

section \<open>Example collaborators and fields\<close>

text \<open>
  A base Field without custom rules: it accepts every value the number field hands on,
  filters nothing, offers no random value of its own, starts with the value \<open>0\<close> and has
  no view. \<open>reject_env\<close> is the same with a custom rule that rejects every value.
  The two parameters of the number model are placeholders: no example below parses a
  number in exponent notation or adds two numbers whose sum could be rounded.
\<close>

definition plain_env :: env where
  "plain_env =
     \<lparr>super_constructor = (\<lambda>name spec.
        \<lparr>this_name = name, this_value = JNum (Fin 0), this_valid = True, this_view = None\<rparr>),
      super_validateValue = (\<lambda>f v. VTrue),
      super_filterValue = (\<lambda>f v. v),
      super_randomizeValue = (\<lambda>f rnd. JNull),
      call_function = (\<lambda>cb v f. Some ''description''),
      parseInt_exponent = (\<lambda>r. NaN),
      float_add = (\<lambda>a b. NaN)\<rparr>"


text \<open>\<^verbatim>\<open>new NumberField(name, { options: { min: lo, max: hi } })\<close> on the plain base.\<close>

definition bounded_spec :: "rat \<Rightarrow> rat \<Rightarrow> spec" where
  "bounded_spec lo hi =
     \<lparr>spec_options = Some (no_options\<lparr>opt_min := JNum (Fin lo), opt_max := JNum (Fin hi)\<rparr>)\<rparr>"

definition bounded_field :: "rat \<Rightarrow> rat \<Rightarrow> field" where
  "bounded_field lo hi = constructor plain_env ''n'' (bounded_spec lo hi)"


text \<open>
  Fields on the plain base with the bounds 1 and 10 and rotation switched off, one
  resting on its minimum and one on its maximum.
\<close>

definition floor_field :: field where
  "floor_field =
     snd (setValue plain_env (JNum (Fin 1))
       (snd (setRotate (JBool False) (bounded_field 1 10))))"

definition ceiling_field :: field where
  "ceiling_field =
     snd (setValue plain_env (JNum (Fin 10))
       (snd (setRotate (JBool False) (bounded_field 1 10))))"

text \<open>
  A rotating field with the bounds 0 and 10 and the current value \<open>x\<close>. The minimum 0
  is set through \<^verbatim>\<open>setMin\<close> and rotation is enabled afterwards.
\<close>

definition dial_field :: "rat \<Rightarrow> field" where
  "dial_field x =
     snd (setValue plain_env (JNum (Fin x))
       (snd (setRotate (JBool True)
         (snd (setMin plain_env (JNum (Fin 0)) (bounded_field 1 10))))))"

text \<open>An integer field with the bounds 0 and 5, and a generator that returns its second
  argument for an integer and its first for a float.\<close>

definition die_field :: field where
  "die_field =
     snd (setMin plain_env (JNum (Fin 0))
       (constructor plain_env ''n''
          \<lparr>spec_options = Some (no_options\<lparr>opt_integer := JBool True,
             opt_max := JNum (Fin 5)\<rparr>)\<rparr>))"

definition top_random :: random where
  "top_random = \<lparr>nextInteger = (\<lambda>a b. b), nextFloat = (\<lambda>a b. a)\<rparr>"

text \<open>A field with the bounds 1 and 10, a description callback and the current value \<open>x\<close>.\<close>

definition described_field :: "rat \<Rightarrow> field" where
  "described_field x =
     snd (setValue plain_env (JNum (Fin x))
       (constructor plain_env ''n''
          \<lparr>spec_options = Some (no_options\<lparr>opt_min := JNum (Fin 1),
             opt_max := JNum (Fin 10), opt_describeValue := Some 0\<rparr>)\<rparr>))"



section \<open>Properties of the stepping loop\<close>

text \<open>
  The two ways the loop condition can turn out, then facts proved by induction along the
  loop: the candidates validated are at most the tries left, the list of candidates only
  grows, a found value has passed validation, and a search in which no candidate passes
  ends without a value, after all the tries unless a boundary test stopped it.
\<close>

lemma stepLoop_stop:
  "fnd \<or> maxTries \<le> t \<or> \<not> stepGuard f step v \<Longrightarrow>
     stepLoop E f step maxTries v t fnd tr = (v, fnd, tr)"
  by (subst stepLoop.simps) auto

lemma stepLoop_step:
  "\<not> fnd \<Longrightarrow> t < maxTries \<Longrightarrow> stepGuard f step v \<Longrightarrow>
     stepLoop E f step maxTries v t fnd tr =
       stepLoop E f step maxTries (stepNext E f step v) (Suc t)
         (validateValue E f (stepNext E f step v) = VTrue) (tr @ [stepNext E f step v])"
  by (subst stepLoop.simps) simp





lemma js_strict_neq_null: "js_strict_neq v JNull = (v \<noteq> JNull)"
  by (cases v) (simp_all add: js_strict_neq_def)


lemma num_lt_asym: "num_lt a b \<Longrightarrow> \<not> num_lt b a"
  by (cases a; cases b) simp_all



lemma js_strict_neq_iff: "js_strict_neq a b = (\<not> js_strict_eq a b)"
  by (simp add: js_strict_neq_def)

text \<open>Validation of a value that filters to a finite number, between two finite bounds.\<close>

lemma validateValue_finite:
  assumes "filterValue E f v = JNum (Fin x)"
    and "this_min f = JNum (Fin lo)" and "this_max f = JNum (Fin hi)"
  shows "validateValue E f v =
     (if x < lo then VMessage ''numberTooSmall''
             ''The value must be greater than or equal to '' (Some (JNum (Fin lo)))
      else if hi \<le> x then VMessage ''numberTooLarge'' ''The value must be less than ''
             (Some (JNum (Fin hi)))
      else super_validateValue E f (JNum (Fin x)))"
  using assms
  by (simp add: validateValue_def js_isNaN_def js_isFinite_def js_strict_neq_def js_lt_def
      js_ge_def)

text \<open>In either mode the filter leaves 0, 9 and 10 as they are when the base filters nothing.\<close>

lemma filterValue_small:
  assumes "\<forall>v. super_filterValue E f v = v"
  shows "filterValue E f (JNum (Fin 0)) = JNum (Fin 0)"
    and "filterValue E f (JNum (Fin 9)) = JNum (Fin 9)"
    and "filterValue E f (JNum (Fin 10)) = JNum (Fin 10)"
  using assms by (simp_all add: filterValue_def trunc_def)




section \<open>The bound on the search\<close>




section \<open>The hard boundary without rotation\<close>

text \<open>
  Claim C6: with rotation disabled, when the current value equals the stored minimum,
  \<^verbatim>\<open>stepValue(step)\<close> with a negative step returns \<^verbatim>\<open>null\<close> without a single
  step-and-validate attempt; symmetrically when the current value equals the stored
  maximum and the step is positive. Equality is the strict equality \<^verbatim>\<open>===\<close> that the
  loop condition tests, and the statement holds for every \<open>maxTries\<close>, given or omitted.
\<close>

theorem stepValue_hard_boundary:
  "\<not> truthy (this_rotate f) \<Longrightarrow>
     (js_strict_eq (getValue f) (this_min f) \<and> js_lt step (JNum (Fin 0)) \<longrightarrow>
        stepValue E f step maxTries = JNull \<and> stepAttempts E f step maxTries = [])
   \<and> (js_strict_eq (getValue f) (this_max f) \<and> js_gt step (JNum (Fin 0)) \<longrightarrow>
        stepValue E f step maxTries = JNull \<and> stepAttempts E f step maxTries = [])"
proof (intro conjI impI)
  assume rot: "\<not> truthy (this_rotate f)"
  {
    assume a: "js_strict_eq (getValue f) (this_min f) \<and> js_lt step (JNum (Fin 0))"
    then have "\<not> js_gt step (JNum (Fin 0))"
      by (simp add: js_lt_def js_gt_def num_lt_asym)
    with a rot have g: "\<not> stepGuard f step (getValue f)"
      by (simp add: stepGuard_def js_strict_neq_iff)
    then have "stepRun E f step maxTries = (getValue f, False, [])"
      by (simp add: stepRun_def stepLoop_stop)
    then show "stepValue E f step maxTries = JNull" "stepAttempts E f step maxTries = []"
      by (simp_all add: stepValue_def stepAttempts_def)
  }
  {
    assume a: "js_strict_eq (getValue f) (this_max f) \<and> js_gt step (JNum (Fin 0))"
    then have "\<not> js_lt step (JNum (Fin 0))"
      by (simp add: js_lt_def js_gt_def num_lt_asym)
    with a rot have g: "\<not> stepGuard f step (getValue f)"
      by (simp add: stepGuard_def js_strict_neq_iff)
    then have "stepRun E f step maxTries = (getValue f, False, [])"
      by (simp add: stepRun_def stepLoop_stop)
    then show "stepValue E f step maxTries = JNull" "stepAttempts E f step maxTries = []"
      by (simp_all add: stepValue_def stepAttempts_def)
  }
qed

text \<open>Stepping down from the minimum 1 and up from the maximum 10, rotation off.\<close>

theorem stepValue_hard_boundary_witness:
  "\<not> truthy (this_rotate floor_field)
   \<and> js_strict_eq (getValue floor_field) (this_min floor_field)
   \<and> js_lt (JNum (Fin (- 1))) (JNum (Fin 0))
   \<and> stepValue plain_env floor_field (JNum (Fin (- 1))) None = JNull
   \<and> stepAttempts plain_env floor_field (JNum (Fin (- 1))) None = []
   \<and> \<not> truthy (this_rotate ceiling_field)
   \<and> js_strict_eq (getValue ceiling_field) (this_max ceiling_field)
   \<and> js_gt (JNum (Fin 1)) (JNum (Fin 0))
   \<and> stepValue plain_env ceiling_field (JNum (Fin 1)) None = JNull
   \<and> stepAttempts plain_env ceiling_field (JNum (Fin 1)) None = []"
proof -
  have a: "\<not> truthy (this_rotate floor_field)"
    "js_strict_eq (getValue floor_field) (this_min floor_field)"
    "js_lt (JNum (Fin (- 1))) (JNum (Fin 0))" by code_simp+
  have b: "\<not> truthy (this_rotate ceiling_field)"
    "js_strict_eq (getValue ceiling_field) (this_max ceiling_field)"
    "js_gt (JNum (Fin 1)) (JNum (Fin 0))" by code_simp+
  show ?thesis
    using stepValue_hard_boundary[of floor_field "JNum (Fin (- 1))" plain_env None]
      stepValue_hard_boundary[of ceiling_field "JNum (Fin 1)" plain_env None] a b
    by simp
qed

section \<open>Rotation\<close>

text \<open>
  Claim C4: in a state with minimum 0, maximum 10 and rotation enabled, where the base
  Field filters nothing and its validation accepts every value in range,
  \<^verbatim>\<open>stepValue(1)\<close> from the current value 9 returns 0 and \<^verbatim>\<open>stepValue(-1)\<close> from the
  current value 0 returns 9. Both calls omit \<open>maxTries\<close>; the result does not depend on
  the integer mode or on the stored step size.
\<close>

theorem stepValue_rotation_example:
  assumes mn: "this_min f = JNum (Fin 0)" and mx: "this_max f = JNum (Fin 10)"
    and rot: "this_rotate f = JBool True"
    and filt: "\<forall>v. super_filterValue E f v = v"
    and base: "\<forall>x. 0 \<le> x \<and> x < 10 \<longrightarrow> super_validateValue E f (JNum (Fin x)) = VTrue"
  shows "(getValue f = JNum (Fin 9) \<longrightarrow> stepValue E f (JNum (Fin 1)) None = JNum (Fin 0))
       \<and> (getValue f = JNum (Fin 0) \<longrightarrow> stepValue E f (JNum (Fin (- 1))) None = JNum (Fin 9))"
proof (intro conjI impI)
  have g: "stepGuard f step v" for step v
    using rot by (simp add: stepGuard_def)
  have v0: "validateValue E f (JNum (Fin 0)) = VTrue"
    using validateValue_finite[OF filterValue_small(1)[OF filt] mn mx] base by simp
  have v9: "validateValue E f (JNum (Fin 9)) = VTrue"
    using validateValue_finite[OF filterValue_small(2)[OF filt] mn mx] base by simp
  have v10: "validateValue E f (JNum (Fin 10)) \<noteq> VTrue"
    using validateValue_finite[OF filterValue_small(3)[OF filt] mn mx] by simp
  have n9: "stepNext E f (JNum (Fin 1)) (JNum (Fin 9)) = JNum (Fin 10)"
    using mn mx rot
    by (simp add: stepNext_def js_add_def js_gt_def js_lt_def exact_operand_def)
  have n10: "stepNext E f (JNum (Fin 1)) (JNum (Fin 10)) = JNum (Fin 0)"
    using mn mx rot
    by (simp add: stepNext_def js_add_def js_gt_def js_lt_def exact_operand_def)
  have n0: "stepNext E f (JNum (Fin (- 1))) (JNum (Fin 0)) = JNum (Fin 9)"
    using mn mx rot
    by (simp add: stepNext_def js_add_def js_gt_def js_lt_def exact_operand_def)
  {
    assume "getValue f = JNum (Fin 9)"
    then have "stepRun E f (JNum (Fin 1)) None =
        (JNum (Fin 0), True, [JNum (Fin 10), JNum (Fin 0)])"
      using g v10 v0
      by (simp add: stepRun_def maxTriesDefault_def stepLoop_step n9 n10 stepLoop_stop)
    then show "stepValue E f (JNum (Fin 1)) None = JNum (Fin 0)"
      by (simp add: stepValue_def)
  }
  {
    assume "getValue f = JNum (Fin 0)"
    then have "stepRun E f (JNum (Fin (- 1))) None = (JNum (Fin 9), True, [JNum (Fin 9)])"
      using g v9
      by (simp add: stepRun_def maxTriesDefault_def stepLoop_step n0 stepLoop_stop)
    then show "stepValue E f (JNum (Fin (- 1))) None = JNum (Fin 9)"
      by (simp add: stepValue_def)
  }
qed

text \<open>The two steps on the plain base, from the current values 9 and 0.\<close>

theorem stepValue_rotation_example_witness:
  "stepValue plain_env (dial_field 9) (JNum (Fin 1)) None = JNum (Fin 0)
   \<and> stepValue plain_env (dial_field 0) (JNum (Fin (- 1))) None = JNum (Fin 9)"
proof -
  have filt: "\<forall>v. super_filterValue plain_env f v = v" for f
    by (simp add: plain_env_def)
  have base: "\<forall>x. 0 \<le> x \<and> x < 10 \<longrightarrow> super_validateValue plain_env f (JNum (Fin x)) = VTrue"
    for f by (simp add: plain_env_def)
  have up: "this_min (dial_field 9) = JNum (Fin 0)" "this_max (dial_field 9) = JNum (Fin 10)"
    "this_rotate (dial_field 9) = JBool True" "getValue (dial_field 9) = JNum (Fin 9)"
    by code_simp+
  have down: "this_min (dial_field 0) = JNum (Fin 0)" "this_max (dial_field 0) = JNum (Fin 10)"
    "this_rotate (dial_field 0) = JBool True" "getValue (dial_field 0) = JNum (Fin 0)"
    by code_simp+
  show ?thesis
    using stepValue_rotation_example[OF up(1-3) filt base]
      stepValue_rotation_example[OF down(1-3) filt base] up(4) down(4)
    by simp
qed




section \<open>Validation against the bounds\<close>

text \<open>
  Claim C3, as stated, has three clauses for a finite value \<open>v\<close> that the filter leaves
  unchanged: below a set minimum the key is \<^verbatim>\<open>numberTooSmall\<close>; at or above a set
  maximum the key is \<^verbatim>\<open>numberTooLarge\<close>; between the bounds neither failure is
  returned; and a value that filters to a non-finite number gives \<^verbatim>\<open>numberNotNumeric\<close>.
  The second clause fails where the first applies as well: the minimum is checked first.
  With the minimum 10 and the maximum 5, the value 7 is at or above the maximum, and the
  result is \<^verbatim>\<open>numberTooSmall\<close>.
\<close>

theorem validateValue_order_counterexample:
  "filterValue plain_env (bounded_field 10 5) (JNum (Fin 7)) = JNum (Fin 7)
   \<and> js_strict_neq (this_max (bounded_field 10 5)) JNull
   \<and> js_ge (JNum (Fin 7)) (this_max (bounded_field 10 5))
   \<and> key_of (validateValue plain_env (bounded_field 10 5) (JNum (Fin 7))) = Some ''numberTooSmall''"
  by code_simp

text \<open>
  Claim C3, amended: for a finite value \<open>x\<close> that the filter leaves unchanged, (1) below
  a set minimum the result has the key \<^verbatim>\<open>numberTooSmall\<close>; (2) at or above a set
  maximum, the maximum itself included, and not below a set minimum, the result has the key
  \<^verbatim>\<open>numberTooLarge\<close>; (3) with each bound either unset or respected
  (\<open>minimum \<le> x < maximum\<close>) no bounds check fails and the result is the one the base
  Field gives for \<open>x\<close>; (4) any raw value that filters to \<^verbatim>\<open>NaN\<close> or an infinity
  gives \<^verbatim>\<open>numberNotNumeric\<close>, whatever the bounds are.
\<close>

theorem validateValue_bounds:
  assumes filt: "filterValue E f (JNum (Fin x)) = JNum (Fin x)"
  shows "(this_min f = JNum (Fin lo) \<and> x < lo \<longrightarrow>
            key_of (validateValue E f (JNum (Fin x))) = Some ''numberTooSmall'')
       \<and> (this_max f = JNum (Fin hi) \<and> hi \<le> x
            \<and> (this_min f = JNull \<or> (\<exists>l. this_min f = JNum (Fin l) \<and> l \<le> x)) \<longrightarrow>
            key_of (validateValue E f (JNum (Fin x))) = Some ''numberTooLarge'')
       \<and> ((this_min f = JNull \<or> (\<exists>l. this_min f = JNum (Fin l) \<and> l \<le> x))
            \<and> (this_max f = JNull \<or> (\<exists>h. this_max f = JNum (Fin h) \<and> x < h)) \<longrightarrow>
            validateValue E f (JNum (Fin x)) = super_validateValue E f (JNum (Fin x)))
       \<and> (filterValue E f raw = JNum n \<and> \<not> num_is_finite n \<longrightarrow>
            validateValue E f raw = VMessage ''numberNotNumeric'' ''The value is not numeric'' None)"
proof (intro conjI impI)
  assume "this_min f = JNum (Fin lo) \<and> x < lo"
  then show "key_of (validateValue E f (JNum (Fin x))) = Some ''numberTooSmall''"
    using filt
    by (simp add: validateValue_def js_isNaN_def js_isFinite_def js_strict_neq_def js_lt_def)
next
  assume "this_max f = JNum (Fin hi) \<and> hi \<le> x
            \<and> (this_min f = JNull \<or> (\<exists>l. this_min f = JNum (Fin l) \<and> l \<le> x))"
  then show "key_of (validateValue E f (JNum (Fin x))) = Some ''numberTooLarge''"
    using filt
    by (auto simp add: validateValue_def js_isNaN_def js_isFinite_def js_strict_neq_def
        js_lt_def js_ge_def)
next
  assume "(this_min f = JNull \<or> (\<exists>l. this_min f = JNum (Fin l) \<and> l \<le> x))
            \<and> (this_max f = JNull \<or> (\<exists>h. this_max f = JNum (Fin h) \<and> x < h))"
  then show "validateValue E f (JNum (Fin x)) = super_validateValue E f (JNum (Fin x))"
    using filt
    by (auto simp add: validateValue_def js_isNaN_def js_isFinite_def js_strict_neq_def
        js_lt_def js_ge_def)
next
  assume "filterValue E f raw = JNum n \<and> \<not> num_is_finite n"
  then show "validateValue E f raw =
      VMessage ''numberNotNumeric'' ''The value is not numeric'' None"
    by (cases n) (simp_all add: validateValue_def js_isNaN_def js_isFinite_def)
qed

text \<open>
  Between the bounds 1 and 10 on the plain base: 0 is too small, 10 is too large, 5 is
  valid, and \<^verbatim>\<open>undefined\<close> filters to \<^verbatim>\<open>NaN\<close> and is not numeric.
\<close>

theorem validateValue_bounds_witness:
  "key_of (validateValue plain_env (bounded_field 1 10) (JNum (Fin 0))) = Some ''numberTooSmall''
   \<and> key_of (validateValue plain_env (bounded_field 1 10) (JNum (Fin 10))) = Some ''numberTooLarge''
   \<and> validateValue plain_env (bounded_field 1 10) (JNum (Fin 5)) = VTrue
   \<and> key_of (validateValue plain_env (bounded_field 1 10) JUndefined) = Some ''numberNotNumeric''"
proof -
  have f: "filterValue plain_env (bounded_field 1 10) (JNum (Fin 0)) = JNum (Fin 0)"
    "filterValue plain_env (bounded_field 1 10) (JNum (Fin 10)) = JNum (Fin 10)"
    "filterValue plain_env (bounded_field 1 10) (JNum (Fin 5)) = JNum (Fin 5)"
    "filterValue plain_env (bounded_field 1 10) JUndefined = JNum NaN"
    by code_simp+
  have b: "this_min (bounded_field 1 10) = JNum (Fin 1)"
    "this_max (bounded_field 1 10) = JNum (Fin 10)"
    "super_validateValue plain_env (bounded_field 1 10) (JNum (Fin 5)) = VTrue"
    by code_simp+
  show ?thesis
    using validateValue_bounds[OF f(1), of 1 10 JUndefined NaN]
      validateValue_bounds[OF f(2), of 1 10 JUndefined NaN]
      validateValue_bounds[OF f(3), of 1 10 JUndefined NaN] f(4) b
    by simp
qed

section \<open>Randomization\<close>

text \<open>
  Claim C9: when the base Field's randomization yields \<^verbatim>\<open>null\<close>, and both bounds are
  set, \<^verbatim>\<open>randomizeValue(random)\<close> returns
  \<^verbatim>\<open>random.nextInteger(minimum, ceil(maximum) - 1)\<close> in integer mode and
  \<^verbatim>\<open>random.nextFloat(minimum, maximum)\<close> otherwise; when either bound is
  \<^verbatim>\<open>null\<close> it returns \<^verbatim>\<open>null\<close>. For a finite maximum \<open>hi\<close>, \<^verbatim>\<open>Math.ceil\<close>
  gives \<open>\<lceil>hi\<rceil>\<close>, and the upper argument is the number \<open>\<lceil>hi\<rceil> - 1\<close> wherever the
  subtraction is known to be exact. With the minimum 0 and the maximum 5 in integer mode, and a
  generator whose \<^verbatim>\<open>nextInteger(a, b)\<close> returns an integer between \<open>a\<close> and \<open>b\<close>
  inclusive, the result is one of 0, 1, 2, 3, 4.
\<close>

theorem randomizeValue_sampling:
  assumes sup: "super_randomizeValue E f rnd = JNull"
  shows "(getMin f \<noteq> JNull \<and> getMax f \<noteq> JNull \<and> truthy (isInteger f) \<longrightarrow>
            randomizeValue E f rnd =
              nextInteger rnd (getMin f) (js_sub E (js_ceil (getMax f)) (JNum (Fin 1))))
       \<and> (getMin f \<noteq> JNull \<and> getMax f \<noteq> JNull \<and> \<not> truthy (isInteger f) \<longrightarrow>
            randomizeValue E f rnd = nextFloat rnd (getMin f) (getMax f))
       \<and> (getMin f = JNull \<or> getMax f = JNull \<longrightarrow> randomizeValue E f rnd = JNull)
       \<and> (getMax f = JNum (Fin hi) \<longrightarrow> js_ceil (getMax f) = JNum (Fin (of_int \<lceil>hi\<rceil>)))
       \<and> (getMax f = JNum (Fin hi) \<and> exact_operand (of_int \<lceil>hi\<rceil>) \<longrightarrow>
            js_sub E (js_ceil (getMax f)) (JNum (Fin 1)) = JNum (Fin (of_int \<lceil>hi\<rceil> - 1)))
       \<and> (getMin f = JNum (Fin 0) \<and> getMax f = JNum (Fin 5) \<and> truthy (isInteger f)
            \<and> (\<forall>a b :: int. a \<le> b \<longrightarrow> (\<exists>k. a \<le> k \<and> k \<le> b
                 \<and> nextInteger rnd (JNum (Fin (of_int a))) (JNum (Fin (of_int b)))
                     = JNum (Fin (of_int k)))) \<longrightarrow>
            (\<exists>k :: int. 0 \<le> k \<and> k \<le> 4 \<and> randomizeValue E f rnd = JNum (Fin (of_int k))))"
proof (intro conjI impI)
  show "js_ceil (getMax f) = JNum (Fin (of_int \<lceil>hi\<rceil>))" if "getMax f = JNum (Fin hi)"
    using that by (simp add: js_ceil_def)
next
  have one: "exact_operand (- 1)" by (simp add: exact_operand_def)
  show "js_sub E (js_ceil (getMax f)) (JNum (Fin 1)) = JNum (Fin (of_int \<lceil>hi\<rceil> - 1))"
    if "getMax f = JNum (Fin hi) \<and> exact_operand (of_int \<lceil>hi\<rceil>)"
    using that one by (simp add: js_sub_def js_ceil_def)
next
  assume a: "getMin f = JNum (Fin 0) \<and> getMax f = JNum (Fin 5) \<and> truthy (isInteger f)
            \<and> (\<forall>a b :: int. a \<le> b \<longrightarrow> (\<exists>k. a \<le> k \<and> k \<le> b
                 \<and> nextInteger rnd (JNum (Fin (of_int a))) (JNum (Fin (of_int b)))
                     = JNum (Fin (of_int k))))"
  then have r: "randomizeValue E f rnd = nextInteger rnd (JNum (Fin 0)) (JNum (Fin 4))"
    using sup
    by (simp add: randomizeValue_def js_strict_neq_null js_sub_def js_ceil_def
        exact_operand_def)
  from a have "\<exists>k::int. 0 \<le> k \<and> k \<le> 4
      \<and> nextInteger rnd (JNum (Fin (of_int 0))) (JNum (Fin (of_int 4))) = JNum (Fin (of_int k))"
    by (metis (no_types) zero_le_numeral)
  with r show "\<exists>k :: int. 0 \<le> k \<and> k \<le> 4 \<and> randomizeValue E f rnd = JNum (Fin (of_int k))"
    by simp
qed (use sup in \<open>auto simp add: randomizeValue_def js_strict_neq_null\<close>)

text \<open>
  With a generator that returns its upper argument: 4 on the integer field with the
  bounds 0 and 5; the float sample on the field with the bounds 1 and 10; \<^verbatim>\<open>null\<close>
  once the maximum is unset.
\<close>

theorem randomizeValue_sampling_witness:
  "randomizeValue plain_env die_field top_random = JNum (Fin 4)
   \<and> randomizeValue plain_env (bounded_field 1 10) top_random = JNum (Fin 1)
   \<and> randomizeValue plain_env (snd (setMax plain_env JNull die_field)) top_random = JNull
   \<and> (\<exists>k :: int. 0 \<le> k \<and> k \<le> 4
        \<and> randomizeValue plain_env die_field top_random = JNum (Fin (of_int k)))"
proof -
  have sup: "super_randomizeValue plain_env f top_random = JNull" for f
    by (simp add: plain_env_def)
  have d: "getMin die_field = JNum (Fin 0)" "getMax die_field = JNum (Fin 5)"
    "truthy (isInteger die_field)" by code_simp+
  have c: "\<forall>a b :: int. a \<le> b \<longrightarrow> (\<exists>k. a \<le> k \<and> k \<le> b
      \<and> nextInteger top_random (JNum (Fin (of_int a))) (JNum (Fin (of_int b)))
          = JNum (Fin (of_int k)))"
    by (auto simp add: top_random_def)
  have b: "getMin (bounded_field 1 10) = JNum (Fin 1)" "getMax (bounded_field 1 10) = JNum (Fin 10)"
    "\<not> truthy (isInteger (bounded_field 1 10))" by code_simp+
  have n: "getMax (snd (setMax plain_env JNull die_field)) = JNull" by code_simp
  show ?thesis
    using randomizeValue_sampling[OF sup, of die_field 5]
      randomizeValue_sampling[OF sup, of "bounded_field 1 10" 10]
      randomizeValue_sampling[OF sup, of "snd (setMax plain_env JNull die_field)" 0]
      d c b n
    by (simp add: top_random_def js_sub_def js_ceil_def exact_operand_def)
qed

section \<open>Value description\<close>

text \<open>
  Claim C10: \<^verbatim>\<open>getValueDescription()\<close> returns \<^verbatim>\<open>null\<close> whenever the field's
  current value is invalid, callback or not, and whenever no callback is configured; when
  the value is valid and a callback is configured it returns what the callback returns
  for the current value and the field.
\<close>

theorem getValueDescription_cases:
  "(\<not> isValid f \<longrightarrow> getValueDescription E f = None)
   \<and> (this_describeValueCallback f = None \<longrightarrow> getValueDescription E f = None)
   \<and> (isValid f \<and> this_describeValueCallback f = Some cb \<longrightarrow>
        getValueDescription E f = call_function E cb (getValue f) f)"
  by (simp add: getValueDescription_def)

text \<open>
  An invalid value with a callback, a valid value without one, and a valid value with
  one.
\<close>

theorem getValueDescription_cases_witness:
  "\<not> isValid (described_field 20)
   \<and> this_describeValueCallback (described_field 20) = Some 0
   \<and> getValueDescription plain_env (described_field 20) = None
   \<and> isValid (bounded_field 1 10)
   \<and> getValueDescription plain_env (bounded_field 1 10) = None
   \<and> isValid (described_field 5)
   \<and> getValueDescription plain_env (described_field 5) = Some ''description''"
proof -
  have a: "\<not> isValid (described_field 20)"
    "this_describeValueCallback (described_field 20) = Some 0"
    "isValid (bounded_field 1 10)"
    "this_describeValueCallback (bounded_field 1 10) = None"
    "isValid (described_field 5)"
    "this_describeValueCallback (described_field 5) = Some 0"
    by code_simp+
  show ?thesis
    using getValueDescription_cases[of "described_field 20" plain_env 0]
      getValueDescription_cases[of "bounded_field 1 10" plain_env 0]
      getValueDescription_cases[of "described_field 5" plain_env 0] a
    by (simp add: plain_env_def)
qed

section \<open>Where the code departs from its documentation\<close>

text \<open>
  Claim C1 states that in every reachable state \<^verbatim>\<open>isRotate()\<close> is true only if both
  stored bounds are not \<^verbatim>\<open>null\<close>. The constructor and \<^verbatim>\<open>setRotate\<close> enforce this,
  as their documentation says (rotation can only be enabled when both bounds are
  defined); \<^verbatim>\<open>setMin\<close> and \<^verbatim>\<open>setMax\<close> do not. Evaluated here: a field constructed with
  the bounds 1 and 5 rotates; after \<^verbatim>\<open>setMin(null)\<close> the minimum is \<^verbatim>\<open>null\<close> and
  \<^verbatim>\<open>isRotate()\<close> is still \<^verbatim>\<open>true\<close>, and likewise after \<^verbatim>\<open>setMax(null)\<close>.
\<close>

theorem setMin_null_keeps_rotation:
  "isRotate (snd (setMin plain_env JNull (bounded_field 1 5))) = JBool True
   \<and> getMin (snd (setMin plain_env JNull (bounded_field 1 5))) = JNull
   \<and> isRotate (snd (setMax plain_env JNull (bounded_field 1 5))) = JBool True
   \<and> getMax (snd (setMax plain_env JNull (bounded_field 1 5))) = JNull"
  by code_simp

text \<open>
  Claim C2 states that the constructor stores each supplied option as given and uses a
  default only for an absent option. The constructor takes its defaults with
  \<^verbatim>\<open>||\<close>, which also replaces a supplied falsy value. Evaluated here:
  \<^verbatim>\<open>rotate: false\<close> with the bounds 1 and 5 gives a rotating field, \<^verbatim>\<open>min: 0\<close> is
  stored as \<^verbatim>\<open>null\<close>, and \<^verbatim>\<open>step: 0\<close> is stored as 1.
\<close>

theorem constructor_falsy_options:
  "isRotate (constructor plain_env ''n''
      \<lparr>spec_options = Some (no_options\<lparr>opt_min := JNum (Fin 1), opt_max := JNum (Fin 5),
         opt_rotate := JBool False\<rparr>)\<rparr>) = JBool True
   \<and> getMin (constructor plain_env ''n''
      \<lparr>spec_options = Some (no_options\<lparr>opt_min := JNum (Fin 0)\<rparr>)\<rparr>) = JNull
   \<and> getStep (constructor plain_env ''n''
      \<lparr>spec_options = Some (no_options\<lparr>opt_step := JNum (Fin 0)\<rparr>)\<rparr>) = JNum (Fin 1)"
  by code_simp

text \<open>
  Claim C8 states that every mutator returns the field itself.
  \<^verbatim>\<open>setNeedsValueDescriptionUpdate\<close> is documented to return the field and has no
  \<^verbatim>\<open>return\<close> statement: for every field its caller receives \<^verbatim>\<open>undefined\<close>,
  where \<^verbatim>\<open>setStep\<close> and \<^verbatim>\<open>setRotate\<close> return the receiver.
\<close>

theorem setNeedsValueDescriptionUpdate_returns_undefined:
  "fst (setNeedsValueDescriptionUpdate f) = RetUndefined
   \<and> fst (setStep step f) = RetThis \<and> fst (setRotate rot f) = RetThis"
  by (simp add: setNeedsValueDescriptionUpdate_def setStep_def setRotate_def)

end
